theory Spec2Isabelle
  imports Complex_Main "HOL-Library.Char_ord" "HOL-Library.List_Lexorder"
begin

section \<open>Data model of \<open>utils/experiment_utils.py\<close>\<close>

text \<open>
  The module drives the conformal-calibration experiments and aggregates the
  persisted results. Score matrices are lists of rows of reals (numpy's floating
  point arithmetic is taken exact), label vectors are lists of integers, Python
  dictionaries are maps, and every exception is a value of \<open>error\<close>.
\<close>

datatype error =
    AssertionError
  | FileNotFoundError string
  | KeyError string
  | ValueError
  | Exception string

type_synonym matrix = "real list list"

text \<open>The 4-tuple returned by \<open>random_split\<close> and \<open>split_X_and_y\<close>.\<close>

record data_split =
  totalcal_scores_all :: matrix
  totalcal_labels :: "int list"
  val_scores_all :: matrix
  val_labels :: "int list"

text \<open>\<open>default_qhat\<close> is either \<open>np.inf\<close> or the string \<open>'standard'\<close>.\<close>

datatype default_qhat = NpInf | StandardQhat

text \<open>A value of \<open>cluster_args\<close>: the string \<open>'auto'\<close> or a number.\<close>

datatype carg = Auto | Num real

text \<open>
  A coverage-metrics or set-size record is a dictionary from metric name to a
  scalar. An entry of a results mapping is the tuple
  \<open>(qhat(s), preds, coverage_metrics, set_size_metrics)\<close>; \<open>preds\<close> may be
  \<open>None\<close>. A results file holds a dictionary from method name to entry.
\<close>

type_synonym metrics = "string \<rightharpoonup> real"
type_synonym ('q, 'p) entry = "'q \<times> 'p option \<times> metrics \<times> metrics"
type_synonym ('q, 'p) results = "string \<rightharpoonup> ('q, 'p) entry"

text \<open>
  The values bound to \<open>scores_all\<close> (per score function) and to the split tuple
  (per score function and seed). They are recorded in the field \<open>observed\<close> of
  the world below, which is instrumentation only: the program keeps them in
  local variables.
\<close>

datatype obs =
    Scores string matrix
  | Split string int data_split

text \<open>
  What the run reads and writes outside of its arguments: the \<open>.npz\<close> dataset
  files, the folders made by \<open>os.makedirs\<close>, the pickled results files and the
  saved label vectors.
\<close>

record ('q, 'p) world =
  npz_files :: "string \<rightharpoonup> matrix \<times> int list"
  dirs :: "string set"
  results_files :: "string \<rightharpoonup> ('q, 'p) results"
  labels_files :: "string \<rightharpoonup> int list"
  observed :: "obs list"

text \<open>
  The functions imported from \<open>utils.conformal_utils\<close> and numpy's seeding are
  parameters of the model. Each may read and advance the global numpy random
  state \<open>'g\<close> and may raise. An optional argument that a call site leaves out
  is \<open>None\<close>.
\<close>

record ('g, 'q, 'p) env =
  np_random_seed :: "int \<Rightarrow> 'g"
  get_APS_scores_all :: "matrix \<Rightarrow> bool \<Rightarrow> 'g \<Rightarrow> error + matrix \<times> 'g"
  get_RAPS_scores_all :: "matrix \<Rightarrow> real \<Rightarrow> int \<Rightarrow> bool \<Rightarrow> 'g \<Rightarrow> error + matrix \<times> 'g"
  random_split :: "matrix \<Rightarrow> int list \<Rightarrow> int \<Rightarrow> int \<Rightarrow> 'g \<Rightarrow> error + data_split \<times> 'g"
  split_X_and_y :: "matrix \<Rightarrow> int list \<Rightarrow> int \<Rightarrow> nat \<Rightarrow> int \<Rightarrow> string \<Rightarrow> 'g
    \<Rightarrow> error + data_split \<times> 'g"
  standard_conformal :: "matrix \<Rightarrow> int list \<Rightarrow> matrix \<Rightarrow> int list \<Rightarrow> real \<Rightarrow> bool option
    \<Rightarrow> 'g \<Rightarrow> error + ('q, 'p) entry \<times> 'g"
  classwise_conformal :: "matrix \<Rightarrow> int list \<Rightarrow> matrix \<Rightarrow> int list \<Rightarrow> real \<Rightarrow> nat
    \<Rightarrow> default_qhat \<Rightarrow> bool \<Rightarrow> bool option \<Rightarrow> 'g \<Rightarrow> error + ('q, 'p) entry \<times> 'g"
  clustered_conformal :: "matrix \<Rightarrow> int list \<Rightarrow> real \<Rightarrow> matrix \<Rightarrow> int list
    \<Rightarrow> carg option \<Rightarrow> carg option \<Rightarrow> string \<Rightarrow> bool option
    \<Rightarrow> 'g \<Rightarrow> error + ('q, 'p) entry \<times> 'g"

text \<open>The arguments of \<open>run_one_experiment\<close>.\<close>

record config =
  dataset :: string
  save_folder :: string
  alpha :: real
  n_totalcal :: int
  score_function_list :: "string list"
  methods :: "string list"
  seeds :: "int list"
  cluster_args :: "string \<rightharpoonup> carg"
  save_preds :: bool
  calibration_sampling :: string
  save_labels :: bool

section \<open>Paths\<close>

text \<open>Decimal rendering of an integer inside an f-string.\<close>

function str_nat :: "nat \<Rightarrow> string" where
  "str_nat n =
     (if n < 10 then [''0123456789'' ! n]
      else str_nat (n div 10) @ [''0123456789'' ! (n mod 10)])"
  by pat_completeness auto
termination
  by (relation "measure (\<lambda>n. n)") auto

declare str_nat.simps [simp del]

definition str_int :: "int \<Rightarrow> string" where
  "str_int i = (if i < 0 then ''-'' @ str_nat (nat (- i)) else str_nat (nat i))"

text \<open>\<open>os.path.join\<close> of two components (POSIX).\<close>

definition os_path_join :: "string \<Rightarrow> string \<Rightarrow> string" where
  "os_path_join a b =
     (if take 1 b = ''/'' then b
      else if a = [] \<or> last a = CHR ''/'' then a @ b
      else a @ ''/'' @ b)"

definition curr_folder_of :: "config \<Rightarrow> string \<Rightarrow> string" where
  "curr_folder_of a score_function =
     os_path_join (save_folder a)
       (dataset a @ ''/'' @ calibration_sampling a @ ''_calset/n_totalcal=''
          @ str_int (n_totalcal a) @ ''/score='' @ score_function)"

definition save_to_of :: "string \<Rightarrow> int \<Rightarrow> string" where
  "save_to_of curr_folder seed =
     os_path_join curr_folder (''seed='' @ str_int seed @ ''_allresults.pkl'')"

definition save_labels_to_of :: "string \<Rightarrow> int \<Rightarrow> string" where
  "save_labels_to_of curr_folder seed =
     os_path_join curr_folder (''seed='' @ str_int seed @ ''_labels.npy'')"

section \<open>\<open>load_dataset\<close>\<close>

definition load_dataset :: "('q, 'p) world \<Rightarrow> string \<Rightarrow> string \<Rightarrow> error + matrix \<times> int list" where
  "load_dataset w ds data_folder =
     (if ds \<notin> set [''imagenet'', ''cifar-100'', ''places365'', ''inaturalist'']
      then Inl AssertionError
      else (case npz_files w (data_folder @ ''/'' @ ds @ ''.npz'') of
              None \<Rightarrow> Inl (FileNotFoundError (data_folder @ ''/'' @ ds @ ''.npz''))
            | Some d \<Rightarrow> Inr d))"

section \<open>\<open>run_one_experiment\<close>\<close>

text \<open>
  The loops of \<open>run_one_experiment\<close> are the functions \<open>run_methods\<close>,
  \<open>run_seeds\<close> and \<open>run_score_functions\<close>, their bodies \<open>run_method\<close>,
  \<open>run_seed\<close> and \<open>run_score_function\<close>. What the function prints to the
  console is left out.
\<close>

text \<open>The dispatch on the score function (lines 104-115).\<close>

definition compute_scores ::
  "('g, 'q, 'p) env \<Rightarrow> string \<Rightarrow> matrix \<Rightarrow> 'g \<Rightarrow> error + matrix \<times> 'g" where
  "compute_scores E score_function softmax_scores g =
     (if score_function = ''softmax'' then Inr (map (map (\<lambda>p. 1 - p)) softmax_scores, g)
      else if score_function = ''APS'' then get_APS_scores_all E softmax_scores True g
      else if score_function = ''RAPS'' then
        (let lmbda = 1 / 100; kreg = 5
         in get_RAPS_scores_all E softmax_scores lmbda kreg True g)
      else Inl (Exception ''Undefined score function''))"

text \<open>\<open>scores_all.shape[1]\<close>: the number of columns (0 in the model for a matrix with no rows).\<close>

definition shape1 :: "matrix \<Rightarrow> nat" where
  "shape1 m = (case m of [] \<Rightarrow> 0 | r # _ \<Rightarrow> length r)"

text \<open>The dispatch on \<open>calibration_sampling\<close> (lines 128-139).\<close>

definition split_data ::
  "('g, 'q, 'p) env \<Rightarrow> string \<Rightarrow> matrix \<Rightarrow> int list \<Rightarrow> int \<Rightarrow> int \<Rightarrow> 'g
     \<Rightarrow> error + data_split \<times> 'g" where
  "split_data E sampling scores_all labels n seed g =
     (if sampling = ''random'' then random_split E scores_all labels n seed g
      else if sampling = ''balanced'' then
        (let num_classes = shape1 scores_all
         in split_X_and_y E scores_all labels n num_classes seed ''balanced'' g)
      else Inl (Exception ''Invalid calibration_sampling option''))"

text \<open>\<open>cluster_args[k]\<close>.\<close>

definition cluster_arg :: "(string \<rightharpoonup> carg) \<Rightarrow> string \<Rightarrow> error + carg" where
  "cluster_arg ca k = (case ca k of None \<Rightarrow> Inl (KeyError k) | Some v \<Rightarrow> Inr v)"

text \<open>The dispatch on the method name (lines 148-222): the value assigned to \<open>all_results[method]\<close>.\<close>

definition run_method ::
  "('g, 'q, 'p) env \<Rightarrow> string \<Rightarrow> data_split \<Rightarrow> real \<Rightarrow> (string \<rightharpoonup> carg) \<Rightarrow> 'g
     \<Rightarrow> error + ('q, 'p) entry \<times> 'g" where
  "run_method E method sp al ca g =
     (let tcs = totalcal_scores_all sp; tcl = totalcal_labels sp;
          vs = val_scores_all sp; vl = val_labels sp
      in
      if method = ''standard'' then standard_conformal E tcs tcl vs vl al None g
      else if method = ''classwise'' then
        classwise_conformal E tcs tcl vs vl al (shape1 tcs) NpInf False None g
      else if method = ''classwise_default_standard'' then
        classwise_conformal E tcs tcl vs vl al (shape1 tcs) StandardQhat False None g
      else if method = ''cluster_proportional'' then
        clustered_conformal E tcs tcl al vs vl None None ''proportional'' None g
      else if method = ''cluster_doubledip'' then
        clustered_conformal E tcs tcl al vs vl None None ''doubledip'' None g
      else if method = ''cluster_random'' then
        (case cluster_arg ca ''frac_clustering'' of Inl e \<Rightarrow> Inl e | Inr fc \<Rightarrow>
         case cluster_arg ca ''num_clusters'' of Inl e \<Rightarrow> Inl e | Inr nc \<Rightarrow>
           clustered_conformal E tcs tcl al vs vl (Some fc) (Some nc) ''random'' None g)
      else if method = ''regularized_classwise'' then
        classwise_conformal E tcs tcl vs vl al (shape1 tcs) StandardQhat True None g
      else if method = ''exact_coverage_standard'' then
        standard_conformal E tcs tcl vs vl al (Some True) g
      else if method = ''exact_coverage_classwise'' then
        classwise_conformal E tcs tcl vs vl al (shape1 tcs) NpInf False (Some True) g
      else if method = ''exact_coverage_cluster'' then
        (case cluster_arg ca ''frac_clustering'' of Inl e \<Rightarrow> Inl e | Inr fc \<Rightarrow>
         case cluster_arg ca ''num_clusters'' of Inl e \<Rightarrow> Inl e | Inr nc \<Rightarrow>
           clustered_conformal E tcs tcl al vs vl (Some fc) (Some nc) ''random'' (Some True) g)
      else Inl (Exception ''Invalid method selected''))"

text \<open>The loop over \<open>methods\<close> (line 145), updating \<open>all_results\<close>.\<close>

fun run_methods ::
  "('g, 'q, 'p) env \<Rightarrow> string list \<Rightarrow> data_split \<Rightarrow> real \<Rightarrow> (string \<rightharpoonup> carg)
     \<Rightarrow> ('q, 'p) results \<Rightarrow> 'g \<Rightarrow> error + ('q, 'p) results \<times> 'g" where
  "run_methods E [] sp al ca all_results g = Inr (all_results, g)"
| "run_methods E (m # ms) sp al ca all_results g =
     (case run_method E m sp al ca g of
        Inl e \<Rightarrow> Inl e
      | Inr (v, g') \<Rightarrow> run_methods E ms sp al ca (all_results(m \<mapsto> v)) g')"

text \<open>Lines 225-227: every entry of \<open>all_results\<close> loses its prediction sets.\<close>

definition strip_entry :: "('q, 'p) entry \<Rightarrow> ('q, 'p) entry" where
  "strip_entry e = (case e of (q, p, c, s) \<Rightarrow> (q, None, c, s))"

definition strip_preds :: "('q, 'p) results \<Rightarrow> ('q, 'p) results" where
  "strip_preds all_results = (\<lambda>m. map_option strip_entry (all_results m))"

text \<open>
  The body of the loop over \<open>seeds\<close> (lines 118-238). An exception leaves the
  world as it is at that point; \<open>min(cts)\<close> raises on an empty calibration set.
\<close>

definition run_seed ::
  "('g, 'q, 'p) env \<Rightarrow> config \<Rightarrow> string \<Rightarrow> matrix \<Rightarrow> int list \<Rightarrow> int
     \<Rightarrow> ('q, 'p) world \<Rightarrow> 'g \<Rightarrow> ('q, 'p) world \<times> (error + 'g)" where
  "run_seed E a score_function scores_all labels seed w g =
     (let curr_folder = curr_folder_of a score_function;
          save_to = save_to_of curr_folder seed;
          all_results = (case results_files w save_to of Some r \<Rightarrow> r | None \<Rightarrow> Map.empty)
      in
      case split_data E (calibration_sampling a) scores_all labels (n_totalcal a) seed g of
        Inl e \<Rightarrow> (w, Inl e)
      | Inr (sp, g1) \<Rightarrow>
          (let w1 = w\<lparr>observed := observed w @ [Split score_function seed sp]\<rparr>
           in
           if totalcal_labels sp = [] then (w1, Inl ValueError)
           else
             (case run_methods E (methods a) sp (alpha a) (cluster_args a) all_results g1 of
                Inl e \<Rightarrow> (w1, Inl e)
              | Inr (res, g2) \<Rightarrow>
                  (let res' = (if \<not> save_preds a then strip_preds res else res);
                       w2 = (if save_labels a
                             then w1\<lparr>labels_files :=
                                    (labels_files w1)(save_labels_to_of curr_folder seed
                                                       \<mapsto> val_labels sp)\<rparr>
                             else w1);
                       w3 = w2\<lparr>results_files := (results_files w2)(save_to \<mapsto> res')\<rparr>
                   in (w3, Inr g2)))))"

text \<open>The loop over \<open>seeds\<close> (line 117).\<close>

fun run_seeds ::
  "('g, 'q, 'p) env \<Rightarrow> config \<Rightarrow> string \<Rightarrow> matrix \<Rightarrow> int list \<Rightarrow> int list
     \<Rightarrow> ('q, 'p) world \<Rightarrow> 'g \<Rightarrow> ('q, 'p) world \<times> (error + 'g)" where
  "run_seeds E a score_function scores_all labels [] w g = (w, Inr g)"
| "run_seeds E a score_function scores_all labels (seed # rest) w g =
     (case run_seed E a score_function scores_all labels seed w g of
        (w', Inl e) \<Rightarrow> (w', Inl e)
      | (w', Inr g') \<Rightarrow> run_seeds E a score_function scores_all labels rest w' g')"

text \<open>The body of the loop over \<open>score_function_list\<close> (lines 98-238).\<close>

definition run_score_function ::
  "('g, 'q, 'p) env \<Rightarrow> config \<Rightarrow> matrix \<Rightarrow> int list \<Rightarrow> string
     \<Rightarrow> ('q, 'p) world \<Rightarrow> 'g \<Rightarrow> ('q, 'p) world \<times> (error + 'g)" where
  "run_score_function E a softmax_scores labels score_function w g =
     (let w0 = w\<lparr>dirs := insert (curr_folder_of a score_function) (dirs w)\<rparr>
      in
      case compute_scores E score_function softmax_scores g of
        Inl e \<Rightarrow> (w0, Inl e)
      | Inr (scores_all, g1) \<Rightarrow>
          run_seeds E a score_function scores_all labels (seeds a)
            (w0\<lparr>observed := observed w0 @ [Scores score_function scores_all]\<rparr>) g1)"

text \<open>The loop over \<open>score_function_list\<close> (line 97).\<close>

fun run_score_functions ::
  "('g, 'q, 'p) env \<Rightarrow> config \<Rightarrow> matrix \<Rightarrow> int list \<Rightarrow> string list
     \<Rightarrow> ('q, 'p) world \<Rightarrow> 'g \<Rightarrow> ('q, 'p) world \<times> (error + 'g)" where
  "run_score_functions E a softmax_scores labels [] w g = (w, Inr g)"
| "run_score_functions E a softmax_scores labels (sf # rest) w g =
     (case run_score_function E a softmax_scores labels sf w g of
        (w', Inl e) \<Rightarrow> (w', Inl e)
      | (w', Inr g') \<Rightarrow> run_score_functions E a softmax_scores labels rest w' g')"

text \<open>
  \<open>run_one_experiment\<close>: \<open>g\<close> is the global numpy random state at entry, which
  \<open>np.random.seed(0)\<close> replaces. The result is the world at exit with either the
  exception raised or the random state left behind.
\<close>

definition run_one_experiment ::
  "('g, 'q, 'p) env \<Rightarrow> config \<Rightarrow> ('q, 'p) world \<Rightarrow> 'g \<Rightarrow> ('q, 'p) world \<times> (error + 'g)" where
  "run_one_experiment E a w g =
     (let g0 = np_random_seed E 0
      in
      case load_dataset w (dataset a) ''data'' of
        Inl e \<Rightarrow> (w, Inl e)
      | Inr (softmax_scores, labels) \<Rightarrow>
          run_score_functions E a softmax_scores labels (score_function_list a) w g0)"

section \<open>\<open>average_results_across_seeds\<close>\<close>

text \<open>The five lists kept per method by \<open>initialize_metrics_dict\<close>.\<close>

record metric_lists =
  class_cov_gap :: "real list"
  max_class_cov_gap :: "real list"
  avg_set_size :: "real list"
  marginal_cov :: "real list"
  very_undercovered :: "real list"

definition initialize_metrics_dict :: "string list \<Rightarrow> (string \<rightharpoonup> metric_lists)" where
  "initialize_metrics_dict ms =
     fold (\<lambda>m d. d(m \<mapsto> \<lparr>class_cov_gap = [], max_class_cov_gap = [], avg_set_size = [],
                           marginal_cov = [], very_undercovered = []\<rparr>)) ms Map.empty"

text \<open>
  numpy's reductions over a list of samples. On an empty list \<open>np.mean\<close> and
  \<open>np.std\<close> give \<open>nan\<close>, which is \<open>None\<close> here; \<open>np.std\<close> is taken with its
  default \<open>ddof=0\<close>.
\<close>

definition np_mean :: "real list \<Rightarrow> real option" where
  "np_mean xs = (if xs = [] then None else Some (sum_list xs / real (length xs)))"

definition np_std :: "real list \<Rightarrow> real option" where
  "np_std xs =
     (case np_mean xs of
        None \<Rightarrow> None
      | Some mu \<Rightarrow> map_option sqrt (np_mean (map (\<lambda>x. (x - mu)\<^sup>2) xs)))"

text \<open>\<open>np.std(xs)/np.sqrt(n)\<close>; a division by \<open>np.sqrt(0)\<close> does not give a number.\<close>

definition std_err :: "real list \<Rightarrow> nat \<Rightarrow> real option" where
  "std_err xs n =
     (case np_std xs of
        None \<Rightarrow> None
      | Some s \<Rightarrow> if n = 0 then None else Some (s / sqrt (real n)))"

definition times100 :: "real option \<Rightarrow> real option" where
  "times100 v = map_option (\<lambda>x. x * 100) v"

text \<open>One row of the returned data frame.\<close>

record df_row =
  method_name :: string
  class_cov_gap_mean :: "real option"
  class_cov_gap_se :: "real option"
  max_class_cov_gap_mean :: "real option"
  max_class_cov_gap_se :: "real option"
  avg_set_size_mean :: "real option"
  avg_set_size_se :: "real option"
  marginal_cov_mean :: "real option"
  marginal_cov_se :: "real option"
  very_undercovered_mean :: "real option"
  very_undercovered_se :: "real option"

text \<open>What the function prints or displays: a line of text, a label with an array, the table.\<close>

datatype out_item =
    Text string
  | Array string "real list"
  | Table "df_row list"

text \<open>\<open>max_seeds\<close> is \<open>np.inf\<close> or an integer.\<close>

datatype max_seeds = NpInfinity | Seeds int

text \<open>The slice \<open>xs[:k]\<close>.\<close>

definition py_prefix :: "int \<Rightarrow> 'a list \<Rightarrow> 'a list" where
  "py_prefix k xs = (if 0 \<le> k then take (nat k) xs else take (length xs - nat (- k)) xs)"

text \<open>\<open>results[method][2][key]\<close> and \<open>results[method][3][key]\<close>; \<open>None\<close> when a lookup raises.\<close>

definition cov_metric :: "('q, 'p) results \<Rightarrow> string \<Rightarrow> string \<Rightarrow> real option" where
  "cov_metric r m k = (case r m of None \<Rightarrow> None | Some (q, p, c, s) \<Rightarrow> c k)"

definition size_metric :: "('q, 'p) results \<Rightarrow> string \<Rightarrow> string \<Rightarrow> real option" where
  "size_metric r m k = (case r m of None \<Rightarrow> None | Some (q, p, c, s) \<Rightarrow> s k)"

definition missing_msg :: "string \<Rightarrow> string \<Rightarrow> out_item" where
  "missing_msg m pth = Text (''Missing '' @ m @ '' in '' @ pth)"

text \<open>
  The \<open>try\<close> block of lines 278-285 for one file and one method: five appends in
  order, the first lookup that raises ends the block with the message.
\<close>

definition collect_method ::
  "('q, 'p) results \<Rightarrow> string \<Rightarrow> string \<Rightarrow> (string \<rightharpoonup> metric_lists) \<times> out_item list
     \<Rightarrow> (string \<rightharpoonup> metric_lists) \<times> out_item list" where
  "collect_method r pth m acc =
     (case acc of (M, out) \<Rightarrow>
      case M m of None \<Rightarrow> (M, out @ [missing_msg m pth]) | Some l0 \<Rightarrow>
      case cov_metric r m ''mean_class_cov_gap'' of
        None \<Rightarrow> (M, out @ [missing_msg m pth]) | Some v1 \<Rightarrow>
      let l1 = l0\<lparr>class_cov_gap := class_cov_gap l0 @ [v1]\<rparr> in
      case size_metric r m ''mean'' of
        None \<Rightarrow> (M(m \<mapsto> l1), out @ [missing_msg m pth]) | Some v2 \<Rightarrow>
      let l2 = l1\<lparr>avg_set_size := avg_set_size l1 @ [v2]\<rparr> in
      case cov_metric r m ''max_gap'' of
        None \<Rightarrow> (M(m \<mapsto> l2), out @ [missing_msg m pth]) | Some v3 \<Rightarrow>
      let l3 = l2\<lparr>max_class_cov_gap := max_class_cov_gap l2 @ [v3]\<rparr> in
      case cov_metric r m ''marginal_cov'' of
        None \<Rightarrow> (M(m \<mapsto> l3), out @ [missing_msg m pth]) | Some v4 \<Rightarrow>
      let l4 = l3\<lparr>marginal_cov := marginal_cov l3 @ [v4]\<rparr> in
      case cov_metric r m ''very_undercovered'' of
        None \<Rightarrow> (M(m \<mapsto> l4), out @ [missing_msg m pth]) | Some v5 \<Rightarrow>
      (M(m \<mapsto> l4\<lparr>very_undercovered := very_undercovered l4 @ [v5]\<rparr>), out))"

text \<open>The loop over \<open>methods\<close> for one file (line 277).\<close>

definition collect_file ::
  "('q, 'p) results \<Rightarrow> string \<Rightarrow> string list \<Rightarrow> (string \<rightharpoonup> metric_lists) \<times> out_item list
     \<Rightarrow> (string \<rightharpoonup> metric_lists) \<times> out_item list" where
  "collect_file r pth ms acc = fold (collect_method r pth) ms acc"

text \<open>The loop over \<open>file_names\<close> (line 273).\<close>

fun collect_files ::
  "('q, 'p) world \<Rightarrow> string list \<Rightarrow> string list \<Rightarrow> (string \<rightharpoonup> metric_lists) \<times> out_item list
     \<Rightarrow> error + (string \<rightharpoonup> metric_lists) \<times> out_item list" where
  "collect_files w ms [] acc = Inr acc"
| "collect_files w ms (pth # rest) acc =
     (case results_files w pth of
        None \<Rightarrow> Inl (FileNotFoundError pth)
      | Some r \<Rightarrow> collect_files w ms rest (collect_file r pth ms acc))"

text \<open>The body of the loop of lines 304-321 for one method, with \<open>n = num_seeds\<close>.\<close>

definition summary_row :: "metric_lists \<Rightarrow> nat \<Rightarrow> string \<Rightarrow> df_row" where
  "summary_row l n m =
     \<lparr>method_name = m,
      class_cov_gap_mean = times100 (np_mean (class_cov_gap l)),
      class_cov_gap_se = times100 (std_err (class_cov_gap l) n),
      max_class_cov_gap_mean = times100 (np_mean (max_class_cov_gap l)),
      max_class_cov_gap_se = times100 (std_err (max_class_cov_gap l) n),
      avg_set_size_mean = np_mean (avg_set_size l),
      avg_set_size_se = std_err (avg_set_size l) n,
      marginal_cov_mean = np_mean (marginal_cov l),
      marginal_cov_se = std_err (marginal_cov l) n,
      very_undercovered_mean = np_mean (very_undercovered l),
      very_undercovered_se = std_err (very_undercovered l) n\<rparr>"

fun summarize ::
  "(string \<rightharpoonup> metric_lists) \<Rightarrow> nat \<Rightarrow> bool \<Rightarrow> string list \<Rightarrow> df_row list \<times> out_item list
     \<Rightarrow> error + df_row list \<times> out_item list" where
  "summarize M n print_results [] acc = Inr acc"
| "summarize M n print_results (m # rest) (rows, out) =
     (case M m of
        None \<Rightarrow> Inl (KeyError m)
      | Some l \<Rightarrow>
          summarize M n print_results rest
            (rows @ [summary_row l n m],
             if print_results
             then out @ [Array (''  '' @ m @ '':'') (map (\<lambda>x. x * 100) (class_cov_gap l))]
             else out))"

text \<open>
  \<open>average_results_across_seeds\<close>. \<open>glob\<close> is the list that
  \<open>glob.glob(os.path.join(folder, '*.pkl'))\<close> returns; the files are read from the world.
\<close>

definition average_results_across_seeds ::
  "('q, 'p) world \<Rightarrow> string list \<Rightarrow> bool \<Rightarrow> bool \<Rightarrow> bool \<Rightarrow> string list \<Rightarrow> max_seeds
     \<Rightarrow> error + df_row list \<times> out_item list" where
  "average_results_across_seeds w glob print_results display_table show_seed_ct ms mx =
     (let file_names = sort glob;
          num_seeds = length file_names;
          out0 = (if show_seed_ct
                  then [Text (''Number of seeds found: '' @ str_nat num_seeds)] else []);
          truncate = (case mx of NpInfinity \<Rightarrow> None
                      | Seeds k \<Rightarrow> if int num_seeds > k then Some k else None);
          out1 = (case truncate of None \<Rightarrow> out0
                  | Some k \<Rightarrow> out0 @ [Text (''Only using '' @ str_int k @ '' seeds'')]);
          file_names' = (case truncate of None \<Rightarrow> file_names | Some k \<Rightarrow> py_prefix k file_names)
      in
      case collect_files w ms file_names' (initialize_metrics_dict ms, out1) of
        Inl e \<Rightarrow> Inl e
      | Inr (M, out2) \<Rightarrow>
          (let out3 = (if print_results
                       then out2 @ [Text ''Avg class coverage gap for each random seed:'']
                       else out2)
           in
           case summarize M num_seeds print_results ms ([], out3) of
             Inl e \<Rightarrow> Inl e
           | Inr (df, out4) \<Rightarrow>
               Inr (df, if display_table then out4 @ [Table df] else out4)))"

section \<open>The names the dispatches accept\<close>

text \<open>
  The dataset names of the assertion in \<open>load_dataset\<close> and the names tested by
  the three \<open>if\<close>/\<open>elif\<close> chains of \<open>run_one_experiment\<close>.
\<close>

definition dataset_names :: "string list" where
  "dataset_names = [''imagenet'', ''cifar-100'', ''places365'', ''inaturalist'']"

definition score_function_names :: "string list" where
  "score_function_names = [''softmax'', ''APS'', ''RAPS'']"

definition sampling_names :: "string list" where
  "sampling_names = [''random'', ''balanced'']"

definition method_names :: "string list" where
  "method_names =
     [''standard'', ''classwise'', ''classwise_default_standard'', ''cluster_proportional'',
      ''cluster_doubledip'', ''cluster_random'', ''regularized_classwise'',
      ''exact_coverage_standard'', ''exact_coverage_classwise'', ''exact_coverage_cluster'']"

section \<open>What a re-run keeps of a results file\<close>

text \<open>
  \<open>kept sv ms r r'\<close>: the mapping \<open>r'\<close> has every key of \<open>r\<close>, and an entry of a
  method outside \<open>ms\<close> is the same in both, or, when \<open>sv\<close> (\<open>save_preds\<close>) is false,
  the same without its prediction sets. \<open>files_kept\<close> lifts this to all files.
\<close>

definition kept :: "bool \<Rightarrow> string list \<Rightarrow> ('q, 'p) results \<Rightarrow> ('q, 'p) results \<Rightarrow> bool" where
  "kept sv ms r r' \<longleftrightarrow>
     dom r \<subseteq> dom r'
     \<and> (\<forall>m e. r m = Some e \<longrightarrow> m \<notin> set ms
            \<longrightarrow> r' m = Some e \<or> (\<not> sv \<and> r' m = Some (strip_entry e)))"

definition files_kept ::
  "bool \<Rightarrow> string list \<Rightarrow> (string \<rightharpoonup> ('q, 'p) results) \<Rightarrow> (string \<rightharpoonup> ('q, 'p) results) \<Rightarrow> bool" where
  "files_kept sv ms F F' \<longleftrightarrow>
     (\<forall>p r. F p = Some r \<longrightarrow> (\<exists>r'. F' p = Some r' \<and> kept sv ms r r'))"

text \<open>
  \<open>all_stripped r\<close>: no entry of \<open>r\<close> has prediction sets; \<open>stripped_at F p\<close>: the
  file \<open>p\<close> exists and holds such a mapping.
\<close>

definition all_stripped :: "('q, 'p) results \<Rightarrow> bool" where
  "all_stripped r \<longleftrightarrow> (\<forall>m e. r m = Some e \<longrightarrow> fst (snd e) = None)"

definition stripped_at :: "(string \<rightharpoonup> ('q, 'p) results) \<Rightarrow> string \<Rightarrow> bool" where
  "stripped_at F p \<longleftrightarrow> (\<exists>r. F p = Some r \<and> all_stripped r)"

section \<open>A concrete environment\<close>

text \<open>
  A small instance of the parameters, on which the model can be evaluated: the
  random state is a counter, the splitters cut the data after \<open>n_totalcal\<close> rows,
  and each calibrator returns a fixed entry with prediction sets.
\<close>

definition example_split :: "matrix \<Rightarrow> int list \<Rightarrow> int \<Rightarrow> data_split" where
  "example_split sc lb n =
     \<lparr>totalcal_scores_all = take (nat n) sc, totalcal_labels = take (nat n) lb,
      val_scores_all = drop (nat n) sc, val_labels = drop (nat n) lb\<rparr>"

definition example_entry :: "real \<Rightarrow> (real, nat list list) entry" where
  "example_entry q = (q, Some [[0], [0, 1]], [''marginal_cov'' \<mapsto> 1], [''mean'' \<mapsto> 3 / 2])"

definition example_env :: "(nat, real, nat list list) env" where
  "example_env =
     \<lparr>np_random_seed = (\<lambda>s. nat s),
      get_APS_scores_all = (\<lambda>sm r g. Inr (sm, Suc g)),
      get_RAPS_scores_all = (\<lambda>sm l k r g. Inr (sm, Suc g)),
      random_split = (\<lambda>sc lb n seed g. Inr (example_split sc lb n, nat seed)),
      split_X_and_y = (\<lambda>sc lb n k seed s g. Inr (example_split sc lb n, nat seed)),
      standard_conformal = (\<lambda>tcs tcl vs vl al ex g. Inr (example_entry (1 / 2), g)),
      classwise_conformal = (\<lambda>tcs tcl vs vl al k d rg ex g. Inr (example_entry (1 / 3), g)),
      clustered_conformal = (\<lambda>tcs tcl al vs vl fc nc s ex g. Inr (example_entry (1 / 4), Suc g))\<rparr>"

definition example_world :: "(real, nat list list) world" where
  "example_world =
     \<lparr>npz_files = [''data/imagenet.npz'' \<mapsto> ([[1 / 4, 3 / 4], [1 / 2, 1 / 2], [1, 0]], [1, 0, 0])],
      dirs = {},
      results_files = Map.empty,
      labels_files = Map.empty,
      observed = []\<rparr>"

definition example_config :: config where
  "example_config =
     \<lparr>dataset = ''imagenet'', save_folder = ''out'', alpha = 1 / 10, n_totalcal = 1,
      score_function_list = [''softmax''], methods = [''standard''], seeds = [0],
      cluster_args = [''frac_clustering'' \<mapsto> Auto, ''num_clusters'' \<mapsto> Auto],
      save_preds = False, calibration_sampling = ''random'', save_labels = False\<rparr>"

text \<open>
  The results file of score function \<open>softmax\<close> and seed 0 under the example
  configuration, and a world in which an earlier run has left it with one entry
  that has prediction sets.
\<close>

definition example_path :: string where
  "example_path = ''out/imagenet/random_calset/n_totalcal=1/score=softmax/seed=0_allresults.pkl''"

definition example_prior :: "(real, nat list list) results" where
  "example_prior = [''classwise'' \<mapsto> example_entry (1 / 3)]"

definition example_rerun_world :: "(real, nat list list) world" where
  "example_rerun_world = example_world\<lparr>results_files := [example_path \<mapsto> example_prior]\<rparr>"

text \<open>Three saved results files; the third lacks the method \<open>standard\<close>.\<close>

definition example_metrics_entry :: "real \<Rightarrow> (real, nat list list) entry" where
  "example_metrics_entry v =
     (1 / 2, None,
      [''mean_class_cov_gap'' \<mapsto> v, ''max_gap'' \<mapsto> v, ''marginal_cov'' \<mapsto> v,
       ''very_undercovered'' \<mapsto> v],
      [''mean'' \<mapsto> v])"

definition example_saved :: "(real, nat list list) world" where
  "example_saved =
     \<lparr>npz_files = Map.empty, dirs = {},
      results_files =
        [''r/a.pkl'' \<mapsto> [''standard'' \<mapsto> example_metrics_entry 1],
         ''r/b.pkl'' \<mapsto> [''standard'' \<mapsto> example_metrics_entry 3],
         ''r/c.pkl'' \<mapsto> [''classwise'' \<mapsto> example_metrics_entry 5]],
      labels_files = Map.empty, observed = []\<rparr>"

section \<open>The score transform\<close>

text \<open>
  Claim C5. With score function \<open>'RAPS'\<close> the scores are those of
  \<open>get_RAPS_scores_all\<close> called on the softmax matrix with \<open>lmbda = 0.01\<close>,
  \<open>kreg = 5\<close> and \<open>randomize=True\<close>, whatever the environment.
\<close>

theorem raps_uses_imagenet_defaults:
  "compute_scores E ''RAPS'' softmax_scores g
     = get_RAPS_scores_all E softmax_scores (1 / 100) 5 True g"
  by (simp add: compute_scores_def)

text \<open>
  Claim C6. With score function \<open>'softmax'\<close> the score matrix has as many rows
  as the softmax matrix, each row as long as the corresponding softmax row, every
  entry is one minus the softmax entry, and the random state is left as it was.
\<close>

theorem softmax_score_is_one_minus:
  "\<exists>S. compute_scores E ''softmax'' P g = Inr (S, g)
       \<and> length S = length P
       \<and> (\<forall>i < length P. length (S ! i) = length (P ! i)
             \<and> (\<forall>j < length (P ! i). S ! i ! j = 1 - P ! i ! j))"
  by (simp add: compute_scores_def)

theorem softmax_score_is_one_minus_witness:
  "(1::nat) < length [[1 / 4, 3 / 4], [1 / 2, 1 / 2 :: real]]
   \<and> (0::nat) < length ([[1 / 4, 3 / 4], [1 / 2, 1 / 2 :: real]] ! 1)
   \<and> (\<exists>S. compute_scores example_env ''softmax'' [[1 / 4, 3 / 4], [1 / 2, 1 / 2]] 7 = Inr (S, 7)
          \<and> S ! 1 ! 0 = 1 - [[1 / 4, 3 / 4], [1 / 2, 1 / 2 :: real]] ! 1 ! 0)"
  using softmax_score_is_one_minus [of example_env "[[1 / 4, 3 / 4], [1 / 2, 1 / 2]]" 7]
  by (simp add: compute_scores_def)

section \<open>Aggregation across seeds\<close>









lemma summarize_rows:
  "summarize M n pr ms (rows, out) = Inr (df, out')
     \<Longrightarrow> df = rows @ map (\<lambda>m. summary_row (the (M m)) n m) ms \<and> (\<forall>m \<in> set ms. M m \<noteq> None)"
proof (induction ms arbitrary: rows out)
  case Nil
  then show ?case by simp
next
  case (Cons m ms)
  from Cons.prems obtain l where l: "M m = Some l"
    and rest: "summarize M n pr ms (rows @ [summary_row l n m],
                 if pr then out @ [Array (''  '' @ m @ '':'') (map (\<lambda>x. x * 100) (class_cov_gap l))]
                 else out) = Inr (df, out')"
    by (auto split: option.splits)
  from Cons.IH [OF rest] l show ?case by simp
qed

lemma std_err_pos:
  "0 < n \<Longrightarrow> std_err xs n = map_option (\<lambda>s. s / sqrt (real n)) (np_std xs)"
  by (simp add: std_err_def split: option.splits)

lemma times100_std_err_pos:
  "0 < n \<Longrightarrow> times100 (std_err xs n) = map_option (\<lambda>s. s / sqrt (real n) * 100) (np_std xs)"
  by (simp add: std_err_def times100_def split: option.splits)

text \<open>
  Claim C10. With \<open>max_seeds = k\<close> smaller than the number of files found, the
  samples are those of the first \<open>k\<close> files in sorted order, and each of the
  five standard errors of a row is \<open>np.std\<close> of these samples divided by the
  square root of the number of all files found (times 100 for the two coverage
  gaps).
\<close>

theorem standard_error_divides_by_files_found:
  assumes "0 \<le> k" and "k < int (length glob)"
    and "average_results_across_seeds w glob pr dt sc ms (Seeds k) = Inr (df, out)"
    and "i < length ms"
  shows "\<exists>out0 M out1 l.
      collect_files w ms (take (nat k) (sort glob)) (initialize_metrics_dict ms, out0)
        = Inr (M, out1)
    \<and> M (ms ! i) = Some l
    \<and> class_cov_gap_se (df ! i)
        = map_option (\<lambda>s. s / sqrt (real (length glob)) * 100) (np_std (class_cov_gap l))
    \<and> max_class_cov_gap_se (df ! i)
        = map_option (\<lambda>s. s / sqrt (real (length glob)) * 100) (np_std (max_class_cov_gap l))
    \<and> avg_set_size_se (df ! i)
        = map_option (\<lambda>s. s / sqrt (real (length glob))) (np_std (avg_set_size l))
    \<and> marginal_cov_se (df ! i)
        = map_option (\<lambda>s. s / sqrt (real (length glob))) (np_std (marginal_cov l))
    \<and> very_undercovered_se (df ! i)
        = map_option (\<lambda>s. s / sqrt (real (length glob))) (np_std (very_undercovered l))"
proof -
  let ?n = "length glob"
  define out0 where
    "out0 = (if sc then [Text (''Number of seeds found: '' @ str_nat ?n)] else [])
              @ [Text (''Only using '' @ str_int k @ '' seeds'')]"
  let ?C = "collect_files w ms (take (nat k) (sort glob)) (initialize_metrics_dict ms, out0)"
  have pos: "0 < ?n" using assms(1,2) by (cases glob) simp_all
  have "\<exists>M out1. ?C = Inr (M, out1)
           \<and> (\<exists>out3 out4. summarize M ?n pr ms ([], out3) = Inr (df, out4))"
    using assms(1,2,3)
    by (simp add: average_results_across_seeds_def Let_def py_prefix_def out0_def
        split: sum.splits prod.splits split del: if_split cong: if_cong) blast
  then obtain M out1 out3 out4 where c: "?C = Inr (M, out1)"
    and s: "summarize M ?n pr ms ([], out3) = Inr (df, out4)"
    by blast
  from summarize_rows [OF s] have
    df: "df = map (\<lambda>m. summary_row (the (M m)) ?n m) ms" and ex: "\<forall>m \<in> set ms. M m \<noteq> None"
    by simp_all
  from ex assms(4) obtain l where l: "M (ms ! i) = Some l" by (metis nth_mem not_Some_eq)
  have row: "df ! i = summary_row l ?n (ms ! i)" using df assms(4) l by simp
  have "class_cov_gap_se (df ! i)
          = map_option (\<lambda>s. s / sqrt (real ?n) * 100) (np_std (class_cov_gap l))"
    and "max_class_cov_gap_se (df ! i)
          = map_option (\<lambda>s. s / sqrt (real ?n) * 100) (np_std (max_class_cov_gap l))"
    and "avg_set_size_se (df ! i)
          = map_option (\<lambda>s. s / sqrt (real ?n)) (np_std (avg_set_size l))"
    and "marginal_cov_se (df ! i)
          = map_option (\<lambda>s. s / sqrt (real ?n)) (np_std (marginal_cov l))"
    and "very_undercovered_se (df ! i)
          = map_option (\<lambda>s. s / sqrt (real ?n)) (np_std (very_undercovered l))"
    using pos
    by (simp_all add: row summary_row_def std_err_pos times100_def option.map_comp comp_def)
  with c l show ?thesis by blast
qed

theorem standard_error_divides_by_files_found_witness:
  "(0::int) \<le> 2
   \<and> (2::int) < int (length [''r/c.pkl'', ''r/a.pkl'', ''r/b.pkl''])
   \<and> (0::nat) < length [''standard'']
   \<and> (\<exists>df out.
         average_results_across_seeds example_saved [''r/c.pkl'', ''r/a.pkl'', ''r/b.pkl'']
           False False False [''standard''] (Seeds 2) = Inr (df, out)
       \<and> (\<exists>out0 M out1 l.
             collect_files example_saved [''standard'']
               (take (nat 2) (sort [''r/c.pkl'', ''r/a.pkl'', ''r/b.pkl'']))
               (initialize_metrics_dict [''standard''], out0) = Inr (M, out1)
           \<and> M ([''standard''] ! 0) = Some l
           \<and> avg_set_size_se (df ! 0)
               = map_option (\<lambda>s. s / sqrt (real (length [''r/c.pkl'', ''r/a.pkl'', ''r/b.pkl''])))
                   (np_std (avg_set_size l))))"
proof -
  let ?G = "[''r/c.pkl'', ''r/a.pkl'', ''r/b.pkl'']"
  have "\<exists>df out. average_results_across_seeds example_saved ?G
          False False False [''standard''] (Seeds 2) = Inr (df, out)"
    by (simp add: average_results_across_seeds_def Let_def py_prefix_def example_saved_def
        initialize_metrics_dict_def collect_file_def collect_method_def cov_metric_def
        size_metric_def example_metrics_entry_def)
  then obtain df out where e: "average_results_across_seeds example_saved ?G
          False False False [''standard''] (Seeds 2) = Inr (df, out)"
    by blast
  have h1: "(0::int) \<le> 2" by simp
  have h2: "(2::int) < int (length ?G)" by simp
  have h4: "(0::nat) < length [''standard'']" by simp
  from standard_error_divides_by_files_found [OF h1 h2 e h4] h1 h2 h4 e
  show ?thesis by blast
qed

section \<open>The experiment run\<close>


lemma run_methods_step:
  "run_methods E (m # ms) sp al ca res g = Inr (res', g')
     \<Longrightarrow> \<exists>v g1. run_method E m sp al ca g = Inr (v, g1)
           \<and> run_methods E ms sp al ca (res(m \<mapsto> v)) g1 = Inr (res', g')"
  by (simp del: split_paired_Ex split: sum.splits prod.splits)

lemma run_methods_frame:
  "run_methods E ms sp al ca res g = Inr (res', g')
     \<Longrightarrow> dom res' = dom res \<union> set ms \<and> (\<forall>m. m \<notin> set ms \<longrightarrow> res' m = res m)"
proof (induction ms arbitrary: res g)
  case Nil
  then show ?case by simp
next
  case (Cons m ms)
  from run_methods_step [OF Cons.prems] obtain v g1 where
    rest: "run_methods E ms sp al ca (res(m \<mapsto> v)) g1 = Inr (res', g')"
    by blast
  from Cons.IH [OF rest] have d: "dom res' = dom (res(m \<mapsto> v)) \<union> set ms"
    and f: "\<forall>m'. m' \<notin> set ms \<longrightarrow> res' m' = (res(m \<mapsto> v)) m'"
    by blast+
  have "dom res' = dom res \<union> set (m # ms)" using d by simp
  moreover have "\<forall>m'. m' \<notin> set (m # ms) \<longrightarrow> res' m' = res m'" using f by simp
  ultimately show ?case by blast
qed

lemma run_methods_from_dispatch:
  "run_methods E ms sp al ca res g = Inr (res', g') \<Longrightarrow> m \<in> set ms
     \<Longrightarrow> \<exists>gi gj v. run_method E m sp al ca gi = Inr (v, gj) \<and> res' m = Some v"
proof (induction ms arbitrary: res g)
  case Nil
  then show ?case by simp
next
  case (Cons m' ms)
  from run_methods_step [OF Cons.prems(1)] obtain v g1 where
    v: "run_method E m' sp al ca g = Inr (v, g1)"
    and rest: "run_methods E ms sp al ca (res(m' \<mapsto> v)) g1 = Inr (res', g')"
    by blast
  show ?case
  proof (cases "m \<in> set ms")
    case True
    from Cons.IH [OF rest True] show ?thesis .
  next
    case False
    with Cons.prems(2) have eq: "m = m'" by simp
    from run_methods_frame [OF rest] False have "res' m = (res(m' \<mapsto> v)) m" by blast
    then have "res' m = Some v" using eq by simp
    with eq v show ?thesis by blast
  qed
qed

lemma run_seed_success:
  assumes "run_seed E a sf S L seed w g = (w', Inr g')"
  shows "\<exists>sp g1 res.
      split_data E (calibration_sampling a) S L (n_totalcal a) seed g = Inr (sp, g1)
    \<and> totalcal_labels sp \<noteq> []
    \<and> run_methods E (methods a) sp (alpha a) (cluster_args a)
        (case results_files w (save_to_of (curr_folder_of a sf) seed) of
           Some r \<Rightarrow> r | None \<Rightarrow> Map.empty) g1 = Inr (res, g')
    \<and> results_files w' = (results_files w)(save_to_of (curr_folder_of a sf) seed
          \<mapsto> (if \<not> save_preds a then strip_preds res else res))"
  using assms
  by (auto simp add: run_seed_def Let_def split: sum.splits prod.splits if_splits)

text \<open>
  Claim C7. When an iteration for one score function and seed completes with
  \<open>save_preds\<close> false, the file it writes has exactly the keys of \<open>all_results\<close>
  after the loop over methods, each entry with \<open>None\<close> as second component and
  its first, third and fourth components unchanged; the entry of every method
  run is the value the calibrator dispatch returned on this split.
\<close>

theorem saved_entries_drop_only_preds:
  assumes "\<not> save_preds a" and "run_seed E a sf S L seed w g = (w', Inr g')"
  shows "\<exists>sp g1 res r'.
      split_data E (calibration_sampling a) S L (n_totalcal a) seed g = Inr (sp, g1)
    \<and> run_methods E (methods a) sp (alpha a) (cluster_args a)
        (case results_files w (save_to_of (curr_folder_of a sf) seed) of
           Some r \<Rightarrow> r | None \<Rightarrow> Map.empty) g1 = Inr (res, g')
    \<and> (\<forall>m \<in> set (methods a). \<exists>gi gj v.
          run_method E m sp (alpha a) (cluster_args a) gi = Inr (v, gj) \<and> res m = Some v)
    \<and> results_files w' (save_to_of (curr_folder_of a sf) seed) = Some r'
    \<and> dom r' = dom res
    \<and> (\<forall>m q p c s. res m = Some (q, p, c, s) \<longrightarrow> r' m = Some (q, None, c, s))"
proof -
  let ?path = "save_to_of (curr_folder_of a sf) seed"
  let ?r0 = "case results_files w ?path of Some r \<Rightarrow> r | None \<Rightarrow> Map.empty"
  from run_seed_success [OF assms(2)] assms(1) obtain sp g1 res where
    s: "split_data E (calibration_sampling a) S L (n_totalcal a) seed g = Inr (sp, g1)"
    and r: "run_methods E (methods a) sp (alpha a) (cluster_args a) ?r0 g1 = Inr (res, g')"
    and f: "results_files w' = (results_files w)(?path \<mapsto> strip_preds res)"
    by auto
  have d: "\<forall>m \<in> set (methods a). \<exists>gi gj v.
          run_method E m sp (alpha a) (cluster_args a) gi = Inr (v, gj) \<and> res m = Some v"
    using run_methods_from_dispatch [OF r] by blast
  have f1: "results_files w' ?path = Some (strip_preds res)" using f by simp
  have f2: "dom (strip_preds res) = dom res"
    by (auto simp add: strip_preds_def dom_def)
  have f3: "\<forall>m q p c s. res m = Some (q, p, c, s) \<longrightarrow> strip_preds res m = Some (q, None, c, s)"
    by (simp add: strip_preds_def strip_entry_def)
  from s r d f1 f2 f3 show ?thesis by blast
qed

lemma strip_entry_idem: "strip_entry (strip_entry e) = strip_entry e"
  by (simp add: strip_entry_def split: prod.splits)

lemma kept_refl: "kept sv ms r r"
  by (simp add: kept_def)

lemma kept_trans:
  assumes "kept sv ms r1 r2" and "kept sv ms r2 r3"
  shows "kept sv ms r1 r3"
proof -
  have "dom r1 \<subseteq> dom r3" using assms unfolding kept_def by blast
  moreover have "r3 m = Some e \<or> (\<not> sv \<and> r3 m = Some (strip_entry e))"
    if a: "r1 m = Some e" and b: "m \<notin> set ms" for m e
  proof -
    from assms(1) a b have "r2 m = Some e \<or> (\<not> sv \<and> r2 m = Some (strip_entry e))"
      unfolding kept_def by blast
    then show ?thesis
    proof
      assume "r2 m = Some e"
      with assms(2) b show ?thesis unfolding kept_def by blast
    next
      assume c: "\<not> sv \<and> r2 m = Some (strip_entry e)"
      with assms(2) b have
        "r3 m = Some (strip_entry e) \<or> (\<not> sv \<and> r3 m = Some (strip_entry (strip_entry e)))"
        unfolding kept_def by blast
      with c show ?thesis by (simp add: strip_entry_idem)
    qed
  qed
  ultimately show ?thesis unfolding kept_def by blast
qed

lemma files_kept_refl: "files_kept sv ms F F"
  by (simp add: files_kept_def kept_refl)

lemma files_kept_trans:
  "files_kept sv ms F1 F2 \<Longrightarrow> files_kept sv ms F2 F3 \<Longrightarrow> files_kept sv ms F1 F3"
  unfolding files_kept_def by (meson kept_trans)

lemma kept_after_methods:
  assumes "dom res = dom r \<union> set ms" and "\<forall>m. m \<notin> set ms \<longrightarrow> res m = r m"
  shows "kept sv ms r (if \<not> sv then strip_preds res else res)"
proof -
  have d: "dom (strip_preds res) = dom res" by (auto simp add: strip_preds_def dom_def)
  have "dom r \<subseteq> dom (if \<not> sv then strip_preds res else res)" using assms(1) d by auto
  moreover have "(if \<not> sv then strip_preds res else res) m = Some e
                 \<or> (\<not> sv \<and> (if \<not> sv then strip_preds res else res) m = Some (strip_entry e))"
    if "r m = Some e" and "m \<notin> set ms" for m e
    using that assms(2) by (simp add: strip_preds_def)
  ultimately show ?thesis unfolding kept_def by blast
qed

lemma run_seed_failure:
  "run_seed E a sf S L seed w g = (w', Inl e)
     \<Longrightarrow> results_files w' = results_files w \<and> labels_files w' = labels_files w"
  by (auto simp add: run_seed_def Let_def split: sum.splits prod.splits if_splits)

lemma run_seed_kept:
  assumes "run_seed E a sf S L seed w g = (w', out)"
  shows "files_kept (save_preds a) (methods a) (results_files w) (results_files w')"
proof (cases out)
  case (Inl e)
  with assms run_seed_failure [of E a sf S L seed w g w' e] show ?thesis
    by (simp add: files_kept_refl)
next
  case (Inr g')
  let ?path = "save_to_of (curr_folder_of a sf) seed"
  let ?r0 = "case results_files w ?path of Some r \<Rightarrow> r | None \<Rightarrow> Map.empty"
  from run_seed_success [of E a sf S L seed w g w' g'] assms Inr obtain sp g1 res where
    r: "run_methods E (methods a) sp (alpha a) (cluster_args a) ?r0 g1 = Inr (res, g')"
    and f: "results_files w' = (results_files w)(?path
              \<mapsto> (if \<not> save_preds a then strip_preds res else res))"
    by auto
  from run_methods_frame [OF r] have
    k: "kept (save_preds a) (methods a) ?r0 (if \<not> save_preds a then strip_preds res else res)"
    by (intro kept_after_methods) blast+
  show ?thesis
    unfolding files_kept_def
  proof (intro allI impI)
    fix p r0
    assume p: "results_files w p = Some r0"
    show "\<exists>r'. results_files w' p = Some r' \<and> kept (save_preds a) (methods a) r0 r'"
    proof (cases "p = ?path")
      case True
      with p k f show ?thesis by simp
    next
      case False
      with p f show ?thesis by (simp add: kept_refl)
    qed
  qed
qed

lemma run_seeds_kept:
  "run_seeds E a sf S L sds w g = (w', out)
     \<Longrightarrow> files_kept (save_preds a) (methods a) (results_files w) (results_files w')"
proof (induction sds arbitrary: w g)
  case Nil
  then show ?case by (simp add: files_kept_refl)
next
  case (Cons seed rest)
  obtain w1 o1 where s: "run_seed E a sf S L seed w g = (w1, o1)"
    by (cases "run_seed E a sf S L seed w g")
  note k1 = run_seed_kept [OF s]
  show ?case
  proof (cases o1)
    case (Inl e)
    with Cons.prems s have "w' = w1" by simp
    with k1 show ?thesis by simp
  next
    case (Inr g1)
    with Cons.prems s have "run_seeds E a sf S L rest w1 g1 = (w', out)" by simp
    from files_kept_trans [OF k1 Cons.IH [OF this]] show ?thesis .
  qed
qed

lemma run_score_function_kept:
  assumes "run_score_function E a P L sf w g = (w', out)"
  shows "files_kept (save_preds a) (methods a) (results_files w) (results_files w')"
proof (cases "compute_scores E sf P g")
  case (Inl e)
  with assms have "results_files w' = results_files w"
    by (auto simp add: run_score_function_def Let_def)
  then show ?thesis by (simp add: files_kept_refl)
next
  case (Inr x)
  obtain sc g1 where x: "x = (sc, g1)" by (cases x)
  from assms Inr x have "run_seeds E a sf sc L (seeds a)
      (w\<lparr>dirs := insert (curr_folder_of a sf) (dirs w),
          observed := observed w @ [Scores sf sc]\<rparr>) g1 = (w', out)"
    by (simp add: run_score_function_def Let_def)
  from run_seeds_kept [OF this] show ?thesis by simp
qed

lemma run_score_functions_kept:
  "run_score_functions E a P L sfs w g = (w', out)
     \<Longrightarrow> files_kept (save_preds a) (methods a) (results_files w) (results_files w')"
proof (induction sfs arbitrary: w g)
  case Nil
  then show ?case by (simp add: files_kept_refl)
next
  case (Cons sf rest)
  obtain w1 o1 where s: "run_score_function E a P L sf w g = (w1, o1)"
    by (cases "run_score_function E a P L sf w g")
  note k1 = run_score_function_kept [OF s]
  show ?case
  proof (cases o1)
    case (Inl e)
    with Cons.prems s have "w' = w1" by simp
    with k1 show ?thesis by simp
  next
    case (Inr g1)
    with Cons.prems s have "run_score_functions E a P L rest w1 g1 = (w', out)" by simp
    from files_kept_trans [OF k1 Cons.IH [OF this]] show ?thesis .
  qed
qed

lemma run_one_experiment_kept:
  "files_kept (save_preds a) (methods a) (results_files w)
     (results_files (fst (run_one_experiment E a w g)))"
proof (cases "load_dataset w (dataset a) ''data''")
  case (Inl e)
  then show ?thesis by (simp add: run_one_experiment_def files_kept_refl)
next
  case (Inr x)
  obtain P L where x: "x = (P, L)" by (cases x)
  obtain w' out where
    r: "run_score_functions E a P L (score_function_list a) w (np_random_seed E 0) = (w', out)"
    by (cases "run_score_functions E a P L (score_function_list a) w (np_random_seed E 0)")
  from run_score_functions_kept [OF r] Inr x r show ?thesis
    by (simp add: run_one_experiment_def)
qed

text \<open>
  Claim C1 (amended). A results file present at entry is still present at exit
  with every method key it had; the entry of a method that is not re-run is
  unchanged, or, only when \<open>save_preds\<close> is false, unchanged but for its
  prediction sets, which are replaced by \<open>None\<close>.
\<close>

theorem existing_entries_survive_rerun:
  assumes "results_files w p = Some r"
  shows "\<exists>r'. results_files (fst (run_one_experiment E a w g)) p = Some r'
         \<and> dom r \<subseteq> dom r'
         \<and> (\<forall>m e. r m = Some e \<longrightarrow> m \<notin> set (methods a)
                \<longrightarrow> r' m = Some e \<or> (\<not> save_preds a \<and> r' m = Some (strip_entry e)))"
  using run_one_experiment_kept [of a w E g] assms
  unfolding files_kept_def kept_def by blast

lemma all_stripped_strip_preds: "all_stripped (strip_preds r)"
  unfolding all_stripped_def strip_preds_def
  by (auto simp add: strip_entry_def split: prod.splits)

lemma run_seed_stripped:
  assumes "\<not> save_preds a" and "run_seed E a sf S L seed w g = (w', Inr g')"
  shows "stripped_at (results_files w') (save_to_of (curr_folder_of a sf) seed)
       \<and> (\<forall>p. stripped_at (results_files w) p \<longrightarrow> stripped_at (results_files w') p)"
proof -
  let ?path = "save_to_of (curr_folder_of a sf) seed"
  from run_seed_success [OF assms(2)] assms(1) obtain res where
    f: "results_files w' = (results_files w)(?path \<mapsto> strip_preds res)"
    by auto
  show ?thesis
    by (simp add: f stripped_at_def all_stripped_strip_preds)
qed

lemma run_seeds_step:
  "run_seeds E a sf S L (seed # rest) w g = (w', Inr g')
     \<Longrightarrow> \<exists>w1 g1. run_seed E a sf S L seed w g = (w1, Inr g1)
           \<and> run_seeds E a sf S L rest w1 g1 = (w', Inr g')"
  by (simp split: prod.splits sum.splits)

lemma run_seeds_stripped:
  "\<not> save_preds a \<Longrightarrow> run_seeds E a sf S L sds w g = (w', Inr g')
     \<Longrightarrow> (\<forall>seed \<in> set sds.
            stripped_at (results_files w') (save_to_of (curr_folder_of a sf) seed))
        \<and> (\<forall>p. stripped_at (results_files w) p \<longrightarrow> stripped_at (results_files w') p)"
proof (induction sds arbitrary: w g)
  case Nil
  then show ?case by simp
next
  case (Cons seed rest)
  from run_seeds_step [OF Cons.prems(2)] obtain w1 g1 where
    s: "run_seed E a sf S L seed w g = (w1, Inr g1)"
    and r: "run_seeds E a sf S L rest w1 g1 = (w', Inr g')"
    by blast
  note a1 = run_seed_stripped [OF Cons.prems(1) s]
  note a2 = Cons.IH [OF Cons.prems(1) r]
  from a1 a2 show ?case by auto
qed

lemma run_score_function_step:
  "run_score_function E a P L sf w g = (w', Inr g')
     \<Longrightarrow> \<exists>sc g1 w0. compute_scores E sf P g = Inr (sc, g1)
           \<and> results_files w0 = results_files w
           \<and> run_seeds E a sf sc L (seeds a) w0 g1 = (w', Inr g')"
proof -
  assume r: "run_score_function E a P L sf w g = (w', Inr g')"
  show ?thesis
  proof (cases "compute_scores E sf P g")
    case (Inl e)
    with r show ?thesis by (simp add: run_score_function_def Let_def)
  next
    case (Inr x)
    obtain sc g1 where x: "x = (sc, g1)" by (cases x)
    let ?w0 = "w\<lparr>dirs := insert (curr_folder_of a sf) (dirs w),
                  observed := observed w @ [Scores sf sc]\<rparr>"
    from r Inr x have "run_seeds E a sf sc L (seeds a) ?w0 g1 = (w', Inr g')"
      by (simp add: run_score_function_def Let_def)
    moreover have "results_files ?w0 = results_files w" by simp
    ultimately show ?thesis using Inr x by blast
  qed
qed

lemma run_score_function_stripped:
  assumes "\<not> save_preds a" and "run_score_function E a P L sf w g = (w', Inr g')"
  shows "(\<forall>seed \<in> set (seeds a).
            stripped_at (results_files w') (save_to_of (curr_folder_of a sf) seed))
        \<and> (\<forall>p. stripped_at (results_files w) p \<longrightarrow> stripped_at (results_files w') p)"
proof -
  from run_score_function_step [OF assms(2)] obtain sc g1 w0 where
    f: "results_files w0 = results_files w"
    and r: "run_seeds E a sf sc L (seeds a) w0 g1 = (w', Inr g')"
    by blast
  from run_seeds_stripped [OF assms(1) r] f show ?thesis by simp
qed

lemma run_score_functions_step:
  "run_score_functions E a P L (sf # rest) w g = (w', Inr g')
     \<Longrightarrow> \<exists>w1 g1. run_score_function E a P L sf w g = (w1, Inr g1)
           \<and> run_score_functions E a P L rest w1 g1 = (w', Inr g')"
  by (simp split: prod.splits sum.splits)

lemma run_score_functions_stripped:
  "\<not> save_preds a \<Longrightarrow> run_score_functions E a P L sfs w g = (w', Inr g')
     \<Longrightarrow> (\<forall>sf \<in> set sfs. \<forall>seed \<in> set (seeds a).
            stripped_at (results_files w') (save_to_of (curr_folder_of a sf) seed))
        \<and> (\<forall>p. stripped_at (results_files w) p \<longrightarrow> stripped_at (results_files w') p)"
proof (induction sfs arbitrary: w g)
  case Nil
  then show ?case by simp
next
  case (Cons sf rest)
  from run_score_functions_step [OF Cons.prems(2)] obtain w1 g1 where
    s: "run_score_function E a P L sf w g = (w1, Inr g1)"
    and r: "run_score_functions E a P L rest w1 g1 = (w', Inr g')"
    by blast
  note a1 = run_score_function_stripped [OF Cons.prems(1) s]
  note a2 = Cons.IH [OF Cons.prems(1) r]
  from a1 a2 show ?case by auto
qed

text \<open>
  Claim C9. After a run with \<open>save_preds\<close> false that completes, the results file
  of every listed score function and seed exists and all its entries have \<open>None\<close>
  as prediction sets; the file has every key of the file found there at entry,
  so this includes the entries that were loaded and not re-run.
\<close>

theorem rerun_without_preds_strips_every_entry:
  assumes "\<not> save_preds a"
    and "run_one_experiment E a w g = (w', Inr g')"
    and "sf \<in> set (score_function_list a)" and "seed \<in> set (seeds a)"
  shows "\<exists>r. results_files w' (save_to_of (curr_folder_of a sf) seed) = Some r
        \<and> (\<forall>m e. r m = Some e \<longrightarrow> fst (snd e) = None)
        \<and> (\<forall>r0. results_files w (save_to_of (curr_folder_of a sf) seed) = Some r0
               \<longrightarrow> dom r0 \<subseteq> dom r)"
proof -
  let ?path = "save_to_of (curr_folder_of a sf) seed"
  obtain P L where
    r: "run_score_functions E a P L (score_function_list a) w (np_random_seed E 0)
          = (w', Inr g')"
  proof (cases "load_dataset w (dataset a) ''data''")
    case (Inl e)
    with assms(2) show ?thesis by (simp add: run_one_experiment_def)
  next
    case (Inr x)
    with assms(2) that show ?thesis by (cases x) (simp add: run_one_experiment_def)
  qed
  from run_score_functions_stripped [OF assms(1) r] assms(3,4)
  have "stripped_at (results_files w') ?path" by blast
  then obtain r1 where r1: "results_files w' ?path = Some r1" and s: "all_stripped r1"
    unfolding stripped_at_def by blast
  have "dom r0 \<subseteq> dom r1" if "results_files w ?path = Some r0" for r0
    using run_one_experiment_kept [of a w E g] that assms(2) r1
    unfolding files_kept_def kept_def by fastforce
  with r1 s show ?thesis unfolding all_stripped_def by blast
qed

section \<open>Evaluation on the concrete environment\<close>

lemma str_nat_digit: "n < 10 \<Longrightarrow> str_nat n = [''0123456789'' ! n]"
  by (simp add: str_nat.simps)

lemma str_int_0: "str_int 0 = ''0''"
  by (simp add: str_int_def str_nat_digit)

lemma str_int_1: "str_int 1 = ''1''"
  by (simp add: str_int_def str_nat_digit)

lemma example_save_to:
  "save_to_of (curr_folder_of example_config ''softmax'') 0 = example_path"
  by (simp add: save_to_of_def curr_folder_of_def os_path_join_def example_config_def
      example_path_def str_int_0 str_int_1)

lemma example_config_fields:
  "dataset example_config = ''imagenet''"
  "save_folder example_config = ''out''"
  "alpha example_config = 1 / 10"
  "n_totalcal example_config = 1"
  "score_function_list example_config = [''softmax'']"
  "methods example_config = [''standard'']"
  "seeds example_config = [0]"
  "save_preds example_config = False"
  "calibration_sampling example_config = ''random''"
  "save_labels example_config = False"
  by (simp_all add: example_config_def)

lemmas example_defs =
  run_one_experiment_def load_dataset_def run_score_function_def compute_scores_def
  run_seed_def split_data_def run_method_def Let_def example_env_def example_world_def
  example_rerun_world_def example_split_def example_save_to

lemma example_rerun:
  "run_one_experiment example_env example_config example_rerun_world 5
   = (example_rerun_world
        \<lparr>dirs := {curr_folder_of example_config ''softmax''},
         observed := [Scores ''softmax'' [[3 / 4, 1 / 4], [1 / 2, 1 / 2], [0, 1]],
                      Split ''softmax'' 0
                        (example_split [[3 / 4, 1 / 4], [1 / 2, 1 / 2], [0, 1]] [1, 0, 0] 1)],
         results_files := [example_path \<mapsto>
            strip_preds (example_prior(''standard'' \<mapsto> example_entry (1 / 2)))]\<rparr>,
      Inr 0)"
  by (simp add: example_defs example_config_fields)

section \<open>Unknown names\<close>

lemma unknown_score_function:
  "sf \<notin> set score_function_names
     \<Longrightarrow> compute_scores E sf P g = Inl (Exception ''Undefined score function'')"
  by (simp add: compute_scores_def score_function_names_def)

lemma unknown_sampling:
  "cs \<notin> set sampling_names
     \<Longrightarrow> split_data E cs S L n seed g = Inl (Exception ''Invalid calibration_sampling option'')"
  by (simp add: split_data_def sampling_names_def)

lemma unknown_method:
  "m \<notin> set method_names
     \<Longrightarrow> run_method E m sp al ca g = Inl (Exception ''Invalid method selected'')"
  by (simp add: run_method_def method_names_def)

lemma run_methods_unknown:
  "m \<in> set ms \<Longrightarrow> m \<notin> set method_names \<Longrightarrow> \<exists>e. run_methods E ms sp al ca res g = Inl e"
proof (induction ms arbitrary: res g)
  case Nil
  then show ?case by simp
next
  case (Cons m' ms)
  show ?case
  proof (cases "run_method E m' sp al ca g")
    case (Inl e)
    then show ?thesis by simp
  next
    case (Inr x)
    obtain v g1 where x: "x = (v, g1)" by (cases x)
    from Inr unknown_method [of m' E sp al ca g] Cons.prems have "m \<in> set ms" by auto
    from Cons.IH [OF this Cons.prems(2)] obtain e where
      "run_methods E ms sp al ca (res(m' \<mapsto> v)) g1 = Inl e" by blast
    with Inr x show ?thesis by simp
  qed
qed

lemma run_seed_unknown:
  assumes "calibration_sampling a \<notin> set sampling_names
           \<or> (\<exists>m \<in> set (methods a). m \<notin> set method_names)"
  shows "\<exists>w' e. run_seed E a sf S L seed w g = (w', Inl e)"
proof (cases "split_data E (calibration_sampling a) S L (n_totalcal a) seed g")
  case (Inl e)
  then show ?thesis by (simp add: run_seed_def Let_def)
next
  case (Inr x)
  obtain sp g1 where x: "x = (sp, g1)" by (cases x)
  from Inr assms unknown_sampling [of "calibration_sampling a" E S L "n_totalcal a" seed g]
  obtain m where m: "m \<in> set (methods a)" "m \<notin> set method_names" by auto
  from run_methods_unknown [OF m, of E sp "alpha a" "cluster_args a"
      "case results_files w (save_to_of (curr_folder_of a sf) seed) of
         Some r \<Rightarrow> r | None \<Rightarrow> Map.empty" g1] obtain e where
    "run_methods E (methods a) sp (alpha a) (cluster_args a)
       (case results_files w (save_to_of (curr_folder_of a sf) seed) of
          Some r \<Rightarrow> r | None \<Rightarrow> Map.empty) g1 = Inl e"
    by blast
  with Inr x show ?thesis by (simp add: run_seed_def Let_def)
qed

lemma run_seeds_unknown:
  assumes "calibration_sampling a \<notin> set sampling_names
           \<or> (\<exists>m \<in> set (methods a). m \<notin> set method_names)"
  shows "results_files (fst (run_seeds E a sf S L sds w g)) = results_files w
       \<and> labels_files (fst (run_seeds E a sf S L sds w g)) = labels_files w
       \<and> (sds \<noteq> [] \<longrightarrow> (\<exists>e. snd (run_seeds E a sf S L sds w g) = Inl e))"
proof (cases sds)
  case Nil
  then show ?thesis by simp
next
  case (Cons seed rest)
  from run_seed_unknown [OF assms, of E sf S L seed w g] obtain w' e where
    r: "run_seed E a sf S L seed w g = (w', Inl e)" by blast
  from run_seed_failure [OF r] r Cons show ?thesis by simp
qed

lemma run_score_function_unknown:
  assumes "calibration_sampling a \<notin> set sampling_names
           \<or> (\<exists>m \<in> set (methods a). m \<notin> set method_names)"
  shows "results_files (fst (run_score_function E a P L sf w g)) = results_files w
       \<and> labels_files (fst (run_score_function E a P L sf w g)) = labels_files w
       \<and> (seeds a \<noteq> [] \<longrightarrow> (\<exists>e. snd (run_score_function E a P L sf w g) = Inl e))"
proof (cases "compute_scores E sf P g")
  case (Inl e)
  then show ?thesis by (simp add: run_score_function_def Let_def)
next
  case (Inr x)
  obtain sc g1 where x: "x = (sc, g1)" by (cases x)
  let ?w0 = "w\<lparr>dirs := insert (curr_folder_of a sf) (dirs w),
                observed := observed w @ [Scores sf sc]\<rparr>"
  have "run_score_function E a P L sf w g = run_seeds E a sf sc L (seeds a) ?w0 g1"
    using Inr x by (simp add: run_score_function_def Let_def)
  with run_seeds_unknown [OF assms, of E sf sc L "seeds a" ?w0 g1] show ?thesis by simp
qed

lemma run_score_functions_unknown:
  assumes "calibration_sampling a \<notin> set sampling_names
           \<or> (\<exists>m \<in> set (methods a). m \<notin> set method_names)"
  shows "results_files (fst (run_score_functions E a P L sfs w g)) = results_files w
       \<and> labels_files (fst (run_score_functions E a P L sfs w g)) = labels_files w
       \<and> (sfs \<noteq> [] \<longrightarrow> seeds a \<noteq> []
            \<longrightarrow> (\<exists>e. snd (run_score_functions E a P L sfs w g) = Inl e))"
proof (induction sfs arbitrary: w g)
  case Nil
  then show ?case by simp
next
  case (Cons sf rest)
  obtain w1 o1 where s: "run_score_function E a P L sf w g = (w1, o1)"
    by (cases "run_score_function E a P L sf w g")
  from run_score_function_unknown [OF assms, of E P L sf w g] s have
    f: "results_files w1 = results_files w" "labels_files w1 = labels_files w"
    and e: "seeds a \<noteq> [] \<longrightarrow> (\<exists>e. o1 = Inl e)"
    by simp_all
  show ?case
  proof (cases o1)
    case (Inl e)
    with s f show ?thesis by simp
  next
    case (Inr g1)
    with e have "seeds a = []" by auto
    with Cons.IH [of w1 g1] s Inr f show ?thesis by simp
  qed
qed

lemma run_score_functions_unknown_rule:
  "sf \<in> set sfs \<Longrightarrow> sf \<notin> set score_function_names
     \<Longrightarrow> \<exists>e. snd (run_score_functions E a P L sfs w g) = Inl e"
proof (induction sfs arbitrary: w g)
  case Nil
  then show ?case by simp
next
  case (Cons sf' rest)
  obtain w1 o1 where s: "run_score_function E a P L sf' w g = (w1, o1)"
    by (cases "run_score_function E a P L sf' w g")
  show ?case
  proof (cases o1)
    case (Inl e)
    with s show ?thesis by simp
  next
    case (Inr g1)
    have "sf' \<noteq> sf"
    proof
      assume "sf' = sf"
      with unknown_score_function [OF Cons.prems(2), of E P g] s Inr show False
        by (simp add: run_score_function_def Let_def)
    qed
    with Cons.prems(1) have "sf \<in> set rest" by auto
    from Cons.IH [OF this Cons.prems(2), of w1 g1] obtain e where
      "snd (run_score_functions E a P L rest w1 g1) = Inl e" by blast
    with s Inr show ?thesis by simp
  qed
qed

text \<open>
  Claim C2 (amended). Each dispatch raises \<open>Exception\<close> with its own message on a
  name it does not know: there is no default branch. A call ends in an exception
  whenever the list of score functions holds an unknown name, and, when the
  lists of score functions and of seeds are both non-empty, whenever
  \<open>calibration_sampling\<close> or a listed method is unknown.
\<close>

theorem unknown_names_raise:
  "(sf \<notin> set score_function_names
      \<longrightarrow> compute_scores E sf P g = Inl (Exception ''Undefined score function''))
   \<and> (cs \<notin> set sampling_names
      \<longrightarrow> split_data E cs S L n seed g = Inl (Exception ''Invalid calibration_sampling option''))
   \<and> (m \<notin> set method_names
      \<longrightarrow> run_method E m sp al ca g = Inl (Exception ''Invalid method selected''))
   \<and> ((\<exists>sf \<in> set (score_function_list a). sf \<notin> set score_function_names)
       \<or> (score_function_list a \<noteq> [] \<and> seeds a \<noteq> []
          \<and> (calibration_sampling a \<notin> set sampling_names
             \<or> (\<exists>m \<in> set (methods a). m \<notin> set method_names)))
      \<longrightarrow> (\<exists>e. snd (run_one_experiment E a w g) = Inl e))"
proof -
  have run: "\<exists>e. snd (run_one_experiment E a w g) = Inl e"
    if c: "(\<exists>sf \<in> set (score_function_list a). sf \<notin> set score_function_names)
       \<or> (score_function_list a \<noteq> [] \<and> seeds a \<noteq> []
          \<and> (calibration_sampling a \<notin> set sampling_names
             \<or> (\<exists>m \<in> set (methods a). m \<notin> set method_names)))"
  proof (cases "load_dataset w (dataset a) ''data''")
    case (Inl e)
    then show ?thesis by (simp add: run_one_experiment_def)
  next
    case (Inr x)
    obtain P0 L0 where x: "x = (P0, L0)" by (cases x)
    have eq: "run_one_experiment E a w g
        = run_score_functions E a P0 L0 (score_function_list a) w (np_random_seed E 0)"
      using Inr x by (simp add: run_one_experiment_def)
    from c show ?thesis
    proof
      assume "\<exists>sf \<in> set (score_function_list a). sf \<notin> set score_function_names"
      then obtain sf0 where "sf0 \<in> set (score_function_list a)" "sf0 \<notin> set score_function_names"
        by blast
      from run_score_functions_unknown_rule [OF this, of E a P0 L0 w "np_random_seed E 0"] eq
      show ?thesis by simp
    next
      assume d: "score_function_list a \<noteq> [] \<and> seeds a \<noteq> []
          \<and> (calibration_sampling a \<notin> set sampling_names
             \<or> (\<exists>m \<in> set (methods a). m \<notin> set method_names))"
      then have "calibration_sampling a \<notin> set sampling_names
             \<or> (\<exists>m \<in> set (methods a). m \<notin> set method_names)" by blast
      from run_score_functions_unknown [OF this, of E P0 L0 "score_function_list a" w
          "np_random_seed E 0"] d eq
      show ?thesis by simp
    qed
  qed
  show ?thesis
    using unknown_score_function [of sf E P g] unknown_sampling [of cs E S L n seed g]
      unknown_method [of m E sp al ca g] run
    by blast
qed

lemma curr_folder_ignores_list:
  "curr_folder_of (a\<lparr>score_function_list := x\<rparr>) sf = curr_folder_of a sf"
  by (simp add: curr_folder_of_def)

lemma run_seed_ignores_list:
  "run_seed E (a\<lparr>score_function_list := x\<rparr>) sf S L seed w g = run_seed E a sf S L seed w g"
  by (simp add: run_seed_def curr_folder_ignores_list Let_def split: sum.splits prod.splits)

lemma run_seeds_ignores_list:
  "run_seeds E (a\<lparr>score_function_list := x\<rparr>) sf S L sds w g = run_seeds E a sf S L sds w g"
  by (induction sds arbitrary: w g)
     (simp_all add: run_seed_ignores_list split: sum.splits prod.splits)

lemma run_score_function_ignores_list:
  "run_score_function E (a\<lparr>score_function_list := x\<rparr>) P L sf w g
     = run_score_function E a P L sf w g"
  by (simp add: run_score_function_def curr_folder_ignores_list run_seeds_ignores_list Let_def
      split: sum.splits prod.splits)

lemma run_score_functions_ignores_list:
  "run_score_functions E (a\<lparr>score_function_list := x\<rparr>) P L sfs w g
     = run_score_functions E a P L sfs w g"
  by (induction sfs arbitrary: w g)
     (simp_all add: run_score_function_ignores_list split: sum.splits prod.splits)

lemma run_score_functions_append:
  "run_score_functions E a P L (xs @ ys) w g =
     (case run_score_functions E a P L xs w g of
        (w1, Inl e) \<Rightarrow> (w1, Inl e)
      | (w1, Inr g1) \<Rightarrow> run_score_functions E a P L ys w1 g1)"
  by (induction xs arbitrary: w g) (simp_all split: prod.splits sum.splits)

lemma run_score_functions_unknown_head:
  "sf \<notin> set score_function_names
     \<Longrightarrow> run_score_functions E a P L (sf # post) w g
         = (w\<lparr>dirs := insert (curr_folder_of a sf) (dirs w)\<rparr>,
            Inl (Exception ''Undefined score function''))"
  by (simp add: run_score_function_def Let_def unknown_score_function)

lemma run_score_functions_stop:
  assumes "sf \<notin> set score_function_names"
  shows "results_files (fst (run_score_functions E a P L (pre @ sf # post) w g))
           = results_files (fst (run_score_functions E a P L pre w g))
       \<and> labels_files (fst (run_score_functions E a P L (pre @ sf # post) w g))
           = labels_files (fst (run_score_functions E a P L pre w g))"
proof -
  obtain w1 o1 where r: "run_score_functions E a P L pre w g = (w1, o1)"
    by (cases "run_score_functions E a P L pre w g")
  show ?thesis
  proof (cases o1)
    case (Inl e)
    with r show ?thesis by (simp add: run_score_functions_append)
  next
    case (Inr g1)
    with r run_score_functions_unknown_head [OF assms, of E a P L post w1 g1]
    show ?thesis by (simp add: run_score_functions_append)
  qed
qed

text \<open>
  Claim C3 (amended). An unknown dataset name fails the assertion of
  \<open>load_dataset\<close> and leaves the world as it is. With an unknown
  \<open>calibration_sampling\<close> or an unknown method in the list, no results file and
  no labels file is written or changed. With an unknown score function in the
  list, the results and labels files at exit are those of a run over the score
  functions listed before it: nothing is written for the unknown one or for
  those after it, but what the earlier ones wrote stays on disk.
\<close>

theorem configuration_errors_and_files:
  "(dataset a \<notin> set dataset_names
      \<longrightarrow> run_one_experiment E a w g = (w, Inl AssertionError))
   \<and> (calibration_sampling a \<notin> set sampling_names
       \<or> (\<exists>m \<in> set (methods a). m \<notin> set method_names)
      \<longrightarrow> results_files (fst (run_one_experiment E a w g)) = results_files w
        \<and> labels_files (fst (run_one_experiment E a w g)) = labels_files w)
   \<and> (score_function_list a = pre @ sf # post \<and> sf \<notin> set score_function_names
      \<longrightarrow> results_files (fst (run_one_experiment E a w g))
            = results_files (fst (run_one_experiment E (a\<lparr>score_function_list := pre\<rparr>) w g))
        \<and> labels_files (fst (run_one_experiment E a w g))
            = labels_files (fst (run_one_experiment E (a\<lparr>score_function_list := pre\<rparr>) w g)))"
proof (intro conjI impI)
  assume "dataset a \<notin> set dataset_names"
  then show "run_one_experiment E a w g = (w, Inl AssertionError)"
    by (simp add: run_one_experiment_def load_dataset_def dataset_names_def)
next
  assume c: "calibration_sampling a \<notin> set sampling_names
       \<or> (\<exists>m \<in> set (methods a). m \<notin> set method_names)"
  show "results_files (fst (run_one_experiment E a w g)) = results_files w"
    and "labels_files (fst (run_one_experiment E a w g)) = labels_files w"
    using run_score_functions_unknown [OF c, of E _ _ "score_function_list a" w
        "np_random_seed E 0"]
    by (simp_all add: run_one_experiment_def split: sum.splits prod.splits)
next
  assume c: "score_function_list a = pre @ sf # post \<and> sf \<notin> set score_function_names"
  then have u: "sf \<notin> set score_function_names" and l: "score_function_list a = pre @ sf # post"
    by blast+
  show "results_files (fst (run_one_experiment E a w g))
            = results_files (fst (run_one_experiment E (a\<lparr>score_function_list := pre\<rparr>) w g))"
    and "labels_files (fst (run_one_experiment E a w g))
            = labels_files (fst (run_one_experiment E (a\<lparr>score_function_list := pre\<rparr>) w g))"
    using run_score_functions_stop [OF u, of E a _ _ pre post w "np_random_seed E 0"] l
    by (simp_all add: run_one_experiment_def run_score_functions_ignores_list
        split: sum.splits prod.splits)
qed

section \<open>The theorems at the concrete environment\<close>

text \<open>
  Runs of the example configuration and of three variants of it: a list of score
  functions with an unknown second name, an unknown method with no seeds, and
  the re-run over a file left by an earlier run.
\<close>

lemma example_save_to_list:
  "save_to_of (curr_folder_of (example_config\<lparr>score_function_list := x\<rparr>) ''softmax'') 0
     = example_path"
  by (simp add: curr_folder_ignores_list example_save_to)

lemma example_two_rules:
  "run_one_experiment example_env
     (example_config\<lparr>score_function_list := [''softmax'', ''bogus'']\<rparr>) example_world 5
   = (example_world
        \<lparr>dirs := {curr_folder_of example_config ''bogus'',
                  curr_folder_of example_config ''softmax''},
         observed := [Scores ''softmax'' [[3 / 4, 1 / 4], [1 / 2, 1 / 2], [0, 1]],
                      Split ''softmax'' 0
                        (example_split [[3 / 4, 1 / 4], [1 / 2, 1 / 2], [0, 1]] [1, 0, 0] 1)],
         results_files := [example_path \<mapsto>
            strip_preds [''standard'' \<mapsto> example_entry (1 / 2)]]\<rparr>,
      Inl (Exception ''Undefined score function''))"
  by (simp add: example_defs example_config_fields example_save_to_list curr_folder_ignores_list)

lemma example_no_seeds:
  "snd (run_one_experiment example_env
     (example_config\<lparr>methods := [''bogus''], seeds := []\<rparr>) example_world 5) = Inr 0"
  by (simp add: example_defs example_config_fields)

theorem existing_entry_changes_counterexample:
  "results_files example_rerun_world example_path = Some example_prior
   \<and> example_prior ''classwise'' = Some (example_entry (1 / 3))
   \<and> ''classwise'' \<notin> set (methods example_config)
   \<and> results_files (fst (run_one_experiment example_env example_config example_rerun_world 5))
         example_path
       = Some (strip_preds (example_prior(''standard'' \<mapsto> example_entry (1 / 2))))
   \<and> strip_preds (example_prior(''standard'' \<mapsto> example_entry (1 / 2))) ''classwise''
       \<noteq> Some (example_entry (1 / 3))"
proof -
  have "results_files example_rerun_world example_path = Some example_prior"
    by (simp add: example_rerun_world_def)
  moreover have "example_prior ''classwise'' = Some (example_entry (1 / 3))"
    by (simp add: example_prior_def)
  moreover have "''classwise'' \<notin> set (methods example_config)"
    by (simp add: example_config_fields)
  moreover have "results_files
         (fst (run_one_experiment example_env example_config example_rerun_world 5))
         example_path
       = Some (strip_preds (example_prior(''standard'' \<mapsto> example_entry (1 / 2))))"
    by (simp add: example_rerun)
  moreover have "strip_preds (example_prior(''standard'' \<mapsto> example_entry (1 / 2))) ''classwise''
       \<noteq> Some (example_entry (1 / 3))"
    by (simp add: example_prior_def strip_preds_def strip_entry_def example_entry_def)
  ultimately show ?thesis by (intro conjI)
qed

theorem existing_entries_survive_rerun_witness:
  "results_files example_rerun_world example_path = Some example_prior
   \<and> example_prior ''classwise'' = Some (example_entry (1 / 3))
   \<and> ''classwise'' \<notin> set (methods example_config)
   \<and> (\<exists>r'. results_files
               (fst (run_one_experiment example_env example_config example_rerun_world 5))
               example_path = Some r'
          \<and> dom example_prior \<subseteq> dom r'
          \<and> (r' ''classwise'' = Some (example_entry (1 / 3))
              \<or> (\<not> save_preds example_config
                  \<and> r' ''classwise'' = Some (strip_entry (example_entry (1 / 3))))))"
proof -
  have h: "results_files example_rerun_world example_path = Some example_prior"
    by (simp add: example_rerun_world_def)
  have e: "example_prior ''classwise'' = Some (example_entry (1 / 3))"
    by (simp add: example_prior_def)
  have n: "''classwise'' \<notin> set (methods example_config)"
    by (simp add: example_config_fields)
  from existing_entries_survive_rerun [OF h, of example_env example_config 5] h e n
  show ?thesis by blast
qed

lemma example_seed:
  "\<exists>w' g'. run_seed example_env example_config ''softmax''
      [[3 / 4, 1 / 4], [1 / 2, 1 / 2], [0, 1]] [1, 0, 0] 0 example_rerun_world 5 = (w', Inr g')"
  by (simp add: example_defs example_config_fields)

theorem saved_entries_drop_only_preds_witness:
  "\<not> save_preds example_config
   \<and> (\<exists>w' g'. run_seed example_env example_config ''softmax''
          [[3 / 4, 1 / 4], [1 / 2, 1 / 2], [0, 1]] [1, 0, 0] 0 example_rerun_world 5
            = (w', Inr g')
        \<and> (\<exists>sp g1 res r'.
              split_data example_env (calibration_sampling example_config)
                [[3 / 4, 1 / 4], [1 / 2, 1 / 2], [0, 1]] [1, 0, 0]
                (n_totalcal example_config) 0 5 = Inr (sp, g1)
            \<and> run_methods example_env (methods example_config) sp (alpha example_config)
                (cluster_args example_config)
                (case results_files example_rerun_world
                        (save_to_of (curr_folder_of example_config ''softmax'') 0) of
                   Some r \<Rightarrow> r | None \<Rightarrow> Map.empty) g1 = Inr (res, g')
            \<and> (\<forall>m \<in> set (methods example_config). \<exists>gi gj v.
                  run_method example_env m sp (alpha example_config)
                    (cluster_args example_config) gi = Inr (v, gj) \<and> res m = Some v)
            \<and> results_files w' (save_to_of (curr_folder_of example_config ''softmax'') 0)
                = Some r'
            \<and> dom r' = dom res
            \<and> (\<forall>m q p c s. res m = Some (q, p, c, s) \<longrightarrow> r' m = Some (q, None, c, s))))"
proof -
  have h: "\<not> save_preds example_config" by (simp add: example_config_fields)
  from example_seed obtain w' g' where
    r: "run_seed example_env example_config ''softmax''
          [[3 / 4, 1 / 4], [1 / 2, 1 / 2], [0, 1]] [1, 0, 0] 0 example_rerun_world 5
            = (w', Inr g')"
    by (elim exE)
  note c = saved_entries_drop_only_preds [OF h r]
  show ?thesis
    by (rule conjI [OF h], rule exI [of _ w'], rule exI [of _ g'], rule conjI [OF r c])
qed

theorem rerun_without_preds_strips_every_entry_witness:
  "\<not> save_preds example_config
   \<and> ''softmax'' \<in> set (score_function_list example_config)
   \<and> 0 \<in> set (seeds example_config)
   \<and> (\<exists>w' g'. run_one_experiment example_env example_config example_rerun_world 5
                  = (w', Inr g')
        \<and> (\<exists>r. results_files w' (save_to_of (curr_folder_of example_config ''softmax'') 0)
                  = Some r
              \<and> (\<forall>m e. r m = Some e \<longrightarrow> fst (snd e) = None)
              \<and> (\<forall>r0. results_files example_rerun_world
                          (save_to_of (curr_folder_of example_config ''softmax'') 0) = Some r0
                     \<longrightarrow> dom r0 \<subseteq> dom r)))"
proof -
  have h: "\<not> save_preds example_config" by (simp add: example_config_fields)
  have s: "''softmax'' \<in> set (score_function_list example_config)"
    by (simp add: example_config_fields)
  have d: "0 \<in> set (seeds example_config)" by (simp add: example_config_fields)
  from rerun_without_preds_strips_every_entry [OF h example_rerun s d] h s d example_rerun
  show ?thesis by blast
qed

theorem unknown_method_without_seeds_counterexample:
  "''bogus'' \<notin> set method_names
   \<and> ''bogus'' \<in> set (methods (example_config\<lparr>methods := [''bogus''], seeds := []\<rparr>))
   \<and> snd (run_one_experiment example_env
            (example_config\<lparr>methods := [''bogus''], seeds := []\<rparr>) example_world 5) = Inr 0"
  by (simp add: example_no_seeds method_names_def)

theorem unknown_names_raise_witness:
  "''bogus'' \<notin> set score_function_names
   \<and> ''bogus'' \<notin> set sampling_names
   \<and> ''bogus'' \<notin> set method_names
   \<and> score_function_list (example_config\<lparr>methods := [''bogus'']\<rparr>) \<noteq> []
   \<and> seeds (example_config\<lparr>methods := [''bogus'']\<rparr>) \<noteq> []
   \<and> (\<exists>m \<in> set (methods (example_config\<lparr>methods := [''bogus'']\<rparr>)). m \<notin> set method_names)
   \<and> compute_scores example_env ''bogus'' [[1 / 4, 3 / 4]] 5
       = Inl (Exception ''Undefined score function'')
   \<and> split_data example_env ''bogus'' [[3 / 4, 1 / 4]] [1] 1 0 5
       = Inl (Exception ''Invalid calibration_sampling option'')
   \<and> run_method example_env ''bogus'' (example_split [[3 / 4, 1 / 4], [1 / 2, 1 / 2]] [1, 0] 1)
         (1 / 10) Map.empty 5
       = Inl (Exception ''Invalid method selected'')
   \<and> (\<exists>e. snd (run_one_experiment example_env (example_config\<lparr>methods := [''bogus'']\<rparr>)
                  example_world 5) = Inl e)"
  using unknown_names_raise [of "''bogus''" example_env "[[1 / 4, 3 / 4]]" 5 "''bogus''"
      "[[3 / 4, 1 / 4]]" "[1]" 1 0 "''bogus''"
      "example_split [[3 / 4, 1 / 4], [1 / 2, 1 / 2]] [1, 0] 1" "1 / 10" Map.empty
      "example_config\<lparr>methods := [''bogus'']\<rparr>" example_world]
  by (simp add: score_function_names_def sampling_names_def method_names_def
      example_config_fields)

theorem earlier_rule_written_before_failure_counterexample:
  "''bogus'' \<notin> set score_function_names
   \<and> snd (run_one_experiment example_env
            (example_config\<lparr>score_function_list := [''softmax'', ''bogus'']\<rparr>) example_world 5)
       = Inl (Exception ''Undefined score function'')
   \<and> results_files example_world example_path = None
   \<and> results_files (fst (run_one_experiment example_env
            (example_config\<lparr>score_function_list := [''softmax'', ''bogus'']\<rparr>) example_world 5))
         example_path
       = Some (strip_preds [''standard'' \<mapsto> example_entry (1 / 2)])"
proof -
  have "''bogus'' \<notin> set score_function_names" by (simp add: score_function_names_def)
  moreover have "results_files example_world example_path = None"
    by (simp add: example_world_def)
  moreover note example_two_rules
  ultimately show ?thesis by simp
qed

theorem configuration_errors_and_files_witness:
  "dataset (example_config\<lparr>dataset := ''mnist''\<rparr>) \<notin> set dataset_names
   \<and> run_one_experiment example_env (example_config\<lparr>dataset := ''mnist''\<rparr>) example_world 5
       = (example_world, Inl AssertionError)
   \<and> (\<exists>m \<in> set (methods (example_config\<lparr>methods := [''bogus'']\<rparr>)). m \<notin> set method_names)
   \<and> results_files (fst (run_one_experiment example_env
         (example_config\<lparr>methods := [''bogus'']\<rparr>) example_world 5))
       = results_files example_world
   \<and> score_function_list (example_config\<lparr>score_function_list := [''softmax'', ''bogus'']\<rparr>)
       = [''softmax''] @ ''bogus'' # []
   \<and> ''bogus'' \<notin> set score_function_names
   \<and> results_files (fst (run_one_experiment example_env
         (example_config\<lparr>score_function_list := [''softmax'', ''bogus'']\<rparr>) example_world 5))
       = results_files (fst (run_one_experiment example_env
         (example_config\<lparr>score_function_list := [''softmax'', ''bogus''],
                         score_function_list := [''softmax'']\<rparr>) example_world 5))"
  using configuration_errors_and_files [of "example_config\<lparr>dataset := ''mnist''\<rparr>"
      example_env example_world 5 "[]" "''softmax''" "[]"]
    configuration_errors_and_files [of "example_config\<lparr>methods := [''bogus'']\<rparr>"
      example_env example_world 5 "[]" "''softmax''" "[]"]
    configuration_errors_and_files
      [of "example_config\<lparr>score_function_list := [''softmax'', ''bogus'']\<rparr>"
      example_env example_world 5 "[''softmax'']" "''bogus''" "[]"]
  by (simp add: dataset_names_def method_names_def score_function_names_def
      example_config_fields)

end
